theory Spec2Isabelle
  imports Complex_Main
begin

section \<open>The FAQ handler of \<^verbatim>\<open>src/faq/faq_handler.py\<close>\<close>

text \<open>
  The development embeds the class \<^verbatim>\<open>FAQHandler\<close>. Conventions:
  \<^item> Python strings are \<^typ>\<open>string\<close>; \<^verbatim>\<open>lower\<close>, \<^verbatim>\<open>split\<close> and \<^verbatim>\<open>title\<close> are
    modelled on ASCII text (a character outside ASCII is left as it is and is never
    white space).
  \<^item> The corpus document is the well-formed shape the handler itself writes: a
    \<^verbatim>\<open>categories\<close> dictionary (an association list, since Python dictionaries keep
    insertion order and the flattened order of the entries depends on it) and a
    \<^verbatim>\<open>metadata\<close> block. Every entry has a \<^verbatim>\<open>question\<close> and an \<^verbatim>\<open>answer\<close> string.
  \<^item> Python floats are exact rationals: the scores of the lexical matcher are
    computed without rounding, and a similarity score is the rational a finite float
    denotes (NaN and infinities are outside the model).
  \<^item> An exception is a value of type \<open>exn\<close>; a \<^verbatim>\<open>try\<close> block is a function into
    \<open>exn + 'a\<close> and its \<^verbatim>\<open>except Exception\<close> handler the case distinction on it.
  \<^item> The sentence-transformer model and \<^verbatim>\<open>torch.cosine_similarity\<close> are not code of
    the repository. The encoder is a field of the handler and the similarity a
    parameter, both functions that may raise; \<open>'t\<close> is the type of tensors.
\<close>

subsection \<open>Data model\<close>

datatype exn = RuntimeError | OSError | ValueError | TypeError

record qa =
  question :: string
  answer :: string

record category =
  name :: string
  questions :: "qa list"

record metadata =
  version :: string
  last_updated :: string
  total_questions :: int

record faq_document =
  categories :: "(string \<times> category) list"
  metadata :: metadata

text \<open>What the file system holds at \<^verbatim>\<open>self.faq_file\<close> when the handler reads it.\<close>

datatype 'a storage =
    NoFile
  | ExistsRaises exn
  | ReadRaises exn
  | Parsed 'a

record 't handler =
  faq_data :: faq_document
  model :: "(string list \<Rightarrow> exn + 't) option"
  question_embeddings :: "'t option"
  questions_list :: "string list"

subsection \<open>Python string operations (ASCII)\<close>

definition is_space :: "char \<Rightarrow> bool" where
  "is_space c = (let n = (of_char c :: nat) in (9 \<le> n \<and> n \<le> 13) \<or> (28 \<le> n \<and> n \<le> 32))"

definition is_upper :: "char \<Rightarrow> bool" where
  "is_upper c = (let n = (of_char c :: nat) in 65 \<le> n \<and> n \<le> 90)"

definition is_lower :: "char \<Rightarrow> bool" where
  "is_lower c = (let n = (of_char c :: nat) in 97 \<le> n \<and> n \<le> 122)"

definition lower_char :: "char \<Rightarrow> char" where
  "lower_char c = (if is_upper c then char_of (of_char c + (32 :: nat)) else c)"

definition upper_char :: "char \<Rightarrow> char" where
  "upper_char c = (if is_lower c then char_of (of_char c - (32 :: nat)) else c)"

definition py_lower :: "string \<Rightarrow> string" where
  "py_lower s = map lower_char s"

text \<open>\<^verbatim>\<open>str.split()\<close> without arguments: the maximal runs of characters that are not
  white space, in order. \<open>cur\<close> is the current run, reversed.\<close>

fun split_from :: "string \<Rightarrow> string \<Rightarrow> string list" where
  "split_from cur [] = (if cur = [] then [] else [rev cur])"
| "split_from cur (c # cs) =
     (if is_space c then (if cur = [] then split_from [] cs else rev cur # split_from [] cs)
      else split_from (c # cur) cs)"

definition py_split :: "string \<Rightarrow> string list" where
  "py_split s = split_from [] s"

text \<open>\<^verbatim>\<open>str.title()\<close>: a cased character is upper case after an uncased one and lower
  case after a cased one.\<close>

fun title_from :: "bool \<Rightarrow> string \<Rightarrow> string" where
  "title_from prev [] = []"
| "title_from prev (c # cs) =
     (if is_upper c \<or> is_lower c
      then (if prev then lower_char c else upper_char c) # title_from True cs
      else c # title_from False cs)"

definition py_title :: "string \<Rightarrow> string" where
  "py_title s = title_from False s"

text \<open>\<^verbatim>\<open>w in s\<close> on strings: \<open>w\<close> occurs in \<open>s\<close> as a contiguous substring.\<close>

fun starts_with :: "string \<Rightarrow> string \<Rightarrow> bool" where
  "starts_with s [] = True"
| "starts_with [] (c # w) = False"
| "starts_with (d # s) (c # w) = (d = c \<and> starts_with s w)"

fun contains :: "string \<Rightarrow> string \<Rightarrow> bool" where
  "contains [] w = (w = [])"
| "contains (d # s) w = (starts_with (d # s) w \<or> contains s w)"

subsection \<open>Corpus store\<close>

definition get_default_faq_data :: faq_document where
  "get_default_faq_data =
    \<lparr>categories =
      [(''general'',
        \<lparr>name = ''General Questions'',
         questions =
          [\<lparr>question = ''What can this photo assistant do?'',
            answer = ''This photo assistant can analyze images to detect objects, extract text, identify scenes, and answer questions about photos using AI-powered vision and language models.''\<rparr>,
           \<lparr>question = ''How do I upload a photo?'',
            answer = ''You can upload photos through the web interface by clicking the upload button and selecting an image file from your device.''\<rparr>,
           \<lparr>question = ''What file formats are supported?'',
            answer = ''The assistant supports common image formats including JPEG, PNG, GIF, and WebP files.''\<rparr>]\<rparr>),
       (''analysis'',
        \<lparr>name = ''Photo Analysis'',
         questions =
          [\<lparr>question = ''What information can you extract from photos?'',
            answer = ''I can detect objects, recognize text (OCR), identify scenes and concepts, detect faces, and provide detailed descriptions of image content.''\<rparr>,
           \<lparr>question = ''How accurate is the analysis?'',
            answer = ''The analysis uses state-of-the-art AI models with high accuracy, though results may vary depending on image quality and content complexity.''\<rparr>,
           \<lparr>question = ''Can you read text in images?'',
            answer = ''Yes, I can extract and read text from images using optical character recognition (OCR) technology.''\<rparr>]\<rparr>),
       (''usage'',
        \<lparr>name = ''Usage Tips'',
         questions =
          [\<lparr>question = ''How do I ask questions about my photos?'',
            answer = ''After uploading a photo, you can type questions in the chat interface. Ask about objects, colors, text, or any other aspects of the image.''\<rparr>,
           \<lparr>question = ''What types of questions work best?'',
            answer = ''Specific questions work best, such as 'What objects do you see?', 'Is there text in this image?', or 'Describe the colors in this photo.'' @ [CHR 0x27]\<rparr>,
           \<lparr>question = ''Can you compare multiple photos?'',
            answer = ''Currently, the assistant analyzes one photo at a time. You can upload different photos sequentially for comparison.''\<rparr>]\<rparr>)],
     metadata = \<lparr>version = ''1.0'', last_updated = ''2024-01-01'', total_questions = 9\<rparr>\<rparr>"

text \<open>The \<^verbatim>\<open>try\<close> block of \<^verbatim>\<open>_load_faq_data\<close>: \<^verbatim>\<open>exists()\<close>, \<^verbatim>\<open>open\<close> and
  \<^verbatim>\<open>json.load\<close> may raise.\<close>

definition load_faq_data_try :: "faq_document storage \<Rightarrow> exn + faq_document" where
  "load_faq_data_try f =
     (case f of
        ExistsRaises e \<Rightarrow> Inl e
      | NoFile \<Rightarrow> Inr get_default_faq_data
      | ReadRaises e \<Rightarrow> Inl e
      | Parsed d \<Rightarrow> Inr d)"

definition load_faq_data :: "faq_document storage \<Rightarrow> faq_document" where
  "load_faq_data f =
     (case load_faq_data_try f of
        Inr d \<Rightarrow> d
      | Inl e \<Rightarrow> get_default_faq_data)"

definition get_all_questions :: "faq_document \<Rightarrow> qa list" where
  "get_all_questions d = concat (map (\<lambda>c. questions (snd c)) (categories d))"

text \<open>\<^verbatim>\<open>_save_faq_data\<close>. The argument is what the storage does when the directory is
  made, the file opened and the document dumped: \<open>None\<close> when all three succeed,
  \<open>Some e\<close> when one of them raises \<open>e\<close>. The method has its own handler, which
  prints the error and returns normally.\<close>

definition save_faq_data_try :: "exn option \<Rightarrow> exn + unit" where
  "save_faq_data_try w = (case w of Some e \<Rightarrow> Inl e | None \<Rightarrow> Inr ())"

definition save_faq_data :: "exn option \<Rightarrow> exn + unit" where
  "save_faq_data w =
     (case save_faq_data_try w of
        Inr u \<Rightarrow> Inr u
      | Inl e \<Rightarrow> Inr ())"

text \<open>Dictionary operations on the \<^verbatim>\<open>categories\<close> association list.\<close>

fun has_key :: "string \<Rightarrow> (string \<times> category) list \<Rightarrow> bool" where
  "has_key k [] = False"
| "has_key k ((k', c) # cs) = (k = k' \<or> has_key k cs)"

fun append_question :: "string \<Rightarrow> qa \<Rightarrow> (string \<times> category) list \<Rightarrow> (string \<times> category) list" where
  "append_question k e [] = []"
| "append_question k e ((k', c) # cs) =
     (if k = k' then (k', c\<lparr>questions := questions c @ [e]\<rparr>) # cs
      else (k', c) # append_question k e cs)"

text \<open>The \<^verbatim>\<open>try\<close> block of \<^verbatim>\<open>add_question\<close>: the document as mutated, and the value
  returned or the exception raised.\<close>

definition add_question_try ::
  "exn option \<Rightarrow> faq_document \<Rightarrow> string \<Rightarrow> string \<Rightarrow> string \<Rightarrow> faq_document \<times> (exn + bool)" where
  "add_question_try w d cat q a =
     (let d1 = (if \<not> has_key cat (categories d)
                then d\<lparr>categories := categories d @ [(cat, \<lparr>name = py_title cat, questions = []\<rparr>)]\<rparr>
                else d);
          d2 = d1\<lparr>categories := append_question cat \<lparr>question = q, answer = a\<rparr> (categories d1)\<rparr>;
          d3 = d2\<lparr>metadata := (metadata d2)\<lparr>total_questions := total_questions (metadata d2) + 1\<rparr>\<rparr>
      in (d3, case save_faq_data w of Inl e \<Rightarrow> Inl e | Inr u \<Rightarrow> Inr True))"

definition add_question ::
  "exn option \<Rightarrow> 't handler \<Rightarrow> string \<Rightarrow> string \<Rightarrow> string \<Rightarrow> bool \<times> 't handler" where
  "add_question w h cat q a =
     (case add_question_try w (faq_data h) cat q a of
        (d, Inr b) \<Rightarrow> (b, h\<lparr>faq_data := d\<rparr>)
      | (d, Inl e) \<Rightarrow> (False, h\<lparr>faq_data := d\<rparr>))"

subsection \<open>Embedding cache\<close>

definition initialize_embeddings :: "'t handler \<Rightarrow> 't handler" where
  "initialize_embeddings h =
     (case model h of
        None \<Rightarrow> h
      | Some enc \<Rightarrow>
          (let all_questions = get_all_questions (faq_data h);
               questions_text = map question all_questions
           in case enc questions_text of
                Inr emb \<Rightarrow> h\<lparr>question_embeddings := Some emb, questions_list := questions_text\<rparr>
              | Inl e \<Rightarrow> h\<lparr>question_embeddings := None, questions_list := []\<rparr>))"

text \<open>\<^verbatim>\<open>__init__\<close>. The second argument is what constructing the sentence transformer
  does: it raises, or it gives the encoder. When it raises, \<^verbatim>\<open>question_embeddings\<close> is
  never assigned; the handler reads it only behind \<^verbatim>\<open>not self.model\<close>, so the value
  \<open>None\<close> stands for the missing attribute.\<close>

definition init :: "faq_document storage \<Rightarrow> exn + (string list \<Rightarrow> exn + 't) \<Rightarrow> 't handler" where
  "init f ctor =
     (let d = load_faq_data f in
      case ctor of
        Inr enc \<Rightarrow>
          initialize_embeddings
            \<lparr>faq_data = d, model = Some enc, question_embeddings = None, questions_list = []\<rparr>
      | Inl e \<Rightarrow> \<lparr>faq_data = d, model = None, question_embeddings = None, questions_list = []\<rparr>)"

subsection \<open>Lexical fallback matcher\<close>

definition uncertain_answer :: string where
  "uncertain_answer = ''I couldn't find a specific answer to your question. Please try rephrasing or check the FAQ section for similar topics.''"

text \<open>The score the loop body of \<^verbatim>\<open>_fallback_answer_question\<close> gives one entry;
  \<open>question_lower\<close> is the lower-cased query.\<close>

definition entry_score :: "string \<Rightarrow> qa \<Rightarrow> rat" where
  "entry_score question_lower e =
     (let faq_question = py_lower (question e);
          faq_answer = py_lower (answer e);
          question_words = set (py_split question_lower);
          faq_words = set (py_split faq_question);
          common_words = question_words \<inter> faq_words;
          s1 = (if common_words \<noteq> {}
                then 0 + of_nat (card common_words) / of_nat (max (card question_words) (card faq_words))
                else 0);
          s2 = (if list_ex (\<lambda>word. contains question_lower word) (py_split faq_question)
                then s1 + 5 / 10 else s1);
          s3 = (if list_ex (\<lambda>word. contains question_lower word) (py_split faq_answer)
                then s2 + 3 / 10 else s2)
      in s3)"

text \<open>The inner loop over the questions of one category and the outer loop over the
  categories; the state is \<open>(best_match, best_score)\<close>.\<close>

fun scan_questions :: "string \<Rightarrow> qa list \<Rightarrow> string option \<times> rat \<Rightarrow> string option \<times> rat" where
  "scan_questions ql [] st = st"
| "scan_questions ql (e # es) (best_match, best_score) =
     (if entry_score ql e > best_score
      then scan_questions ql es (Some (answer e), entry_score ql e)
      else scan_questions ql es (best_match, best_score))"

fun scan_categories :: "string \<Rightarrow> category list \<Rightarrow> string option \<times> rat \<Rightarrow> string option \<times> rat" where
  "scan_categories ql [] st = st"
| "scan_categories ql (c # cs) st = scan_categories ql cs (scan_questions ql (questions c) st)"

text \<open>\<^verbatim>\<open>if best_match and best_score > 0.2\<close>: \<^verbatim>\<open>None\<close> and the empty string are both
  false in Python.\<close>

definition fallback_answer_question :: "faq_document \<Rightarrow> string \<Rightarrow> string" where
  "fallback_answer_question d q =
     (case scan_categories (py_lower q) (map snd (categories d)) (None, 0) of
        (Some a, best_score) \<Rightarrow> (if a \<noteq> [] \<and> best_score > 2 / 10 then a else uncertain_answer)
      | (None, best_score) \<Rightarrow> uncertain_answer)"

subsection \<open>Similarity ranker\<close>

text \<open>Modelled from the spec: \<^verbatim>\<open>torch.argmax\<close> is library code. Component 4.3 asks for
  "the single index of maximum similarity"; the library documents that the first of
  several maximal values is the one returned, and that an empty tensor is an error.\<close>

fun argmax_scan :: "rat list \<Rightarrow> nat \<Rightarrow> nat \<Rightarrow> rat \<Rightarrow> nat" where
  "argmax_scan [] i best_i best_v = best_i"
| "argmax_scan (x # xs) i best_i best_v =
     (if x > best_v then argmax_scan xs (Suc i) i x else argmax_scan xs (Suc i) best_i best_v)"

definition argmax :: "rat list \<Rightarrow> exn + nat" where
  "argmax xs = (case xs of [] \<Rightarrow> Inl RuntimeError | x # rest \<Rightarrow> Inr (argmax_scan rest 1 0 x))"

text \<open>Modelled from the spec: \<^verbatim>\<open>torch.topk\<close> is library code. Component 4.3 asks for
  "the indices of the top-k highest scores in descending order, ties broken by lowest
  original index (stable, deterministic)". The library raises when \<open>k\<close> is negative or
  exceeds the number of scores.\<close>

definition topk :: "rat list \<Rightarrow> int \<Rightarrow> exn + nat list" where
  "topk xs k =
     (if k < 0 \<or> int (length xs) < k then Inl RuntimeError
      else Inr (take (nat k) (sort_key (\<lambda>i. - (xs ! i)) [0..<length xs])))"

subsection \<open>Query facade\<close>

definition answer_question_try ::
  "('t \<Rightarrow> 't \<Rightarrow> exn + rat list) \<Rightarrow> 't handler \<Rightarrow> string \<Rightarrow> exn + string" where
  "answer_question_try cosine_similarity h q =
     (case model h of
        None \<Rightarrow> Inr (fallback_answer_question (faq_data h) q)
      | Some enc \<Rightarrow>
     (case question_embeddings h of
        None \<Rightarrow> Inr (fallback_answer_question (faq_data h) q)
      | Some emb \<Rightarrow>
     (case enc [q] of
        Inl e \<Rightarrow> Inl e
      | Inr question_embedding \<Rightarrow>
     (case cosine_similarity question_embedding emb of
        Inl e \<Rightarrow> Inl e
      | Inr similarities \<Rightarrow>
     (case argmax similarities of
        Inl e \<Rightarrow> Inl e
      | Inr most_similar_idx \<Rightarrow>
          (let similarity_score = similarities ! most_similar_idx;
               all_questions = get_all_questions (faq_data h)
           in if most_similar_idx < length all_questions
              then (if similarity_score < 3 / 10 then Inr uncertain_answer
                    else Inr (answer (all_questions ! most_similar_idx)))
              else Inr (fallback_answer_question (faq_data h) q)))))))"

definition answer_question ::
  "('t \<Rightarrow> 't \<Rightarrow> exn + rat list) \<Rightarrow> 't handler \<Rightarrow> string \<Rightarrow> string" where
  "answer_question cosine_similarity h q =
     (case answer_question_try cosine_similarity h q of
        Inr a \<Rightarrow> a
      | Inl e \<Rightarrow> fallback_answer_question (faq_data h) q)"

definition get_similar_questions_try ::
  "('t \<Rightarrow> 't \<Rightarrow> exn + rat list) \<Rightarrow> 't handler \<Rightarrow> string \<Rightarrow> int
     \<Rightarrow> exn + (string \<times> string \<times> rat) list" where
  "get_similar_questions_try cosine_similarity h q top_k =
     (case model h of
        None \<Rightarrow> Inr []
      | Some enc \<Rightarrow>
     (case question_embeddings h of
        None \<Rightarrow> Inr []
      | Some emb \<Rightarrow>
     (case enc [q] of
        Inl e \<Rightarrow> Inl e
      | Inr question_embedding \<Rightarrow>
     (case cosine_similarity question_embedding emb of
        Inl e \<Rightarrow> Inl e
      | Inr similarities \<Rightarrow>
     (case topk similarities (min top_k (int (length similarities))) of
        Inl e \<Rightarrow> Inl e
      | Inr top_indices \<Rightarrow>
          (let all_questions = get_all_questions (faq_data h)
           in Inr (map (\<lambda>idx. (question (all_questions ! idx), answer (all_questions ! idx),
                                 similarities ! idx))
                      (filter (\<lambda>idx. idx < length all_questions) top_indices))))))))"

definition get_similar_questions ::
  "('t \<Rightarrow> 't \<Rightarrow> exn + rat list) \<Rightarrow> 't handler \<Rightarrow> string \<Rightarrow> int
     \<Rightarrow> (string \<times> string \<times> rat) list" where
  "get_similar_questions cosine_similarity h q top_k =
     (case get_similar_questions_try cosine_similarity h q top_k of
        Inr results \<Rightarrow> results
      | Inl e \<Rightarrow> [])"

subsection \<open>An exact-match embedding provider\<close>

text \<open>A provider on which the definitions can be run: the embedding of a text is the
  text, and the similarity of two texts is 1 when they are equal and 0 otherwise. Like
  the sentence transformer it is deterministic, gives one row for each input text, and
  gives a text the greatest similarity to itself; like the library it raises on an
  empty cache.\<close>

definition exact_encode :: "string list \<Rightarrow> exn + string list" where
  "exact_encode texts = Inr texts"

definition exact_cosine :: "string list \<Rightarrow> string list \<Rightarrow> exn + rat list" where
  "exact_cosine qe emb =
     (case qe of
        [q] \<Rightarrow> (if emb = [] then Inl RuntimeError
                else Inr (map (\<lambda>t. if t = q then 1 else 0) emb))
      | _ \<Rightarrow> Inl RuntimeError)"

subsection \<open>The lexical score as the specification words it\<close>





section \<open>Properties\<close>

subsection \<open>The ranker\<close>

lemma argmax_scan_cases:
  "(argmax_scan xs i bi bv = bi \<and> (\<forall>x\<in>set xs. x \<le> bv)) \<or>
   (i \<le> argmax_scan xs i bi bv \<and> argmax_scan xs i bi bv < i + length xs \<and>
    bv < xs ! (argmax_scan xs i bi bv - i) \<and> (\<forall>x\<in>set xs. x \<le> xs ! (argmax_scan xs i bi bv - i)))"
proof (induction xs arbitrary: i bi bv)
  case Nil
  show ?case by simp
next
  case (Cons x xs)
  show ?case
  proof (cases "bv < x")
    case True
    let ?r = "argmax_scan xs (Suc i) i x"
    have r: "argmax_scan (x # xs) i bi bv = ?r" using True by simp
    from Cons.IH [of "Suc i" i x] show ?thesis
    proof
      assume a: "?r = i \<and> (\<forall>y\<in>set xs. y \<le> x)"
      then show ?thesis using True r by auto
    next
      assume a: "Suc i \<le> ?r \<and> ?r < Suc i + length xs \<and> x < xs ! (?r - Suc i) \<and>
                 (\<forall>y\<in>set xs. y \<le> xs ! (?r - Suc i))"
      then have nth: "(x # xs) ! (?r - i) = xs ! (?r - Suc i)"
        by (simp add: nth_Cons')
      show ?thesis using a True r nth by auto
    qed
  next
    case False
    let ?r = "argmax_scan xs (Suc i) bi bv"
    have r: "argmax_scan (x # xs) i bi bv = ?r" using False by simp
    from Cons.IH [of "Suc i" bi bv] show ?thesis
    proof
      assume a: "?r = bi \<and> (\<forall>y\<in>set xs. y \<le> bv)"
      then show ?thesis using False r by auto
    next
      assume a: "Suc i \<le> ?r \<and> ?r < Suc i + length xs \<and> bv < xs ! (?r - Suc i) \<and>
                 (\<forall>y\<in>set xs. y \<le> xs ! (?r - Suc i))"
      then have nth: "(x # xs) ! (?r - i) = xs ! (?r - Suc i)"
        by (simp add: nth_Cons')
      show ?thesis using a False r nth by auto
    qed
  qed
qed

lemma argmax_Inr:
  assumes "argmax xs = Inr i"
  shows "i < length xs \<and> (\<forall>x\<in>set xs. x \<le> xs ! i)"
proof (cases xs)
  case Nil
  then show ?thesis using assms by (simp add: argmax_def)
next
  case (Cons x rest)
  then have i: "i = argmax_scan rest 1 0 x" using assms by (simp add: argmax_def)
  from argmax_scan_cases [of rest 1 0 x] show ?thesis
  proof
    assume "argmax_scan rest 1 0 x = 0 \<and> (\<forall>y\<in>set rest. y \<le> x)"
    then show ?thesis using i Cons by auto
  next
    assume a: "1 \<le> argmax_scan rest 1 0 x \<and> argmax_scan rest 1 0 x < 1 + length rest \<and>
       x < rest ! (argmax_scan rest 1 0 x - 1) \<and> (\<forall>y\<in>set rest. y \<le> rest ! (argmax_scan rest 1 0 x - 1))"
    then have "(x # rest) ! i = rest ! (i - 1)" using i by (simp add: nth_Cons')
    then show ?thesis using a i Cons by auto
  qed
qed

lemma argmax_Max:
  assumes "argmax xs = Inr i"
  shows "xs ! i = Max (set xs)"
proof -
  from argmax_Inr [OF assms] have "i < length xs" and le: "\<forall>x\<in>set xs. x \<le> xs ! i" by auto
  then have "xs ! i \<in> set xs" by simp
  then show ?thesis using le by (intro Max_eqI [symmetric]) auto
qed

subsection \<open>The loops of the lexical matcher\<close>

lemma scan_questions_append:
  "scan_questions ql (xs @ ys) st = scan_questions ql ys (scan_questions ql xs st)"
proof (induction xs arbitrary: st)
  case Nil
  show ?case by simp
next
  case (Cons e xs)
  obtain bm bs where st: "st = (bm, bs)" by (cases st)
  show ?case unfolding st using Cons.IH by simp
qed

lemma scan_categories_concat:
  "scan_categories ql cs st = scan_questions ql (concat (map questions cs)) st"
  by (induction cs arbitrary: st) (simp_all add: scan_questions_append)

lemma scan_categories_all:
  "scan_categories ql (map snd (categories d)) st = scan_questions ql (get_all_questions d) st"
  by (simp add: scan_categories_concat get_all_questions_def comp_def)

lemma scan_questions_fold:
  "snd (scan_questions ql es (bm, bs)) = fold max (map (entry_score ql) es) bs"
  by (induction es arbitrary: bm bs) (simp_all add: max_def)

lemma scan_questions_score:
  "snd (scan_questions ql es (bm, bs)) = Max (insert bs (entry_score ql ` set es))"
proof -
  have "Max (set (bs # map (entry_score ql) es)) = fold max (map (entry_score ql) es) bs"
    by (rule Max.set_eq_fold)
  then show ?thesis by (simp add: scan_questions_fold)
qed

lemma scan_questions_keep:
  "\<forall>e\<in>set es. entry_score ql e \<le> bs \<Longrightarrow> scan_questions ql es (bm, bs) = (bm, bs)"
  by (induction es) auto

lemma scan_questions_first_max:
  "\<exists>e\<in>set es. bs < entry_score ql e \<Longrightarrow>
   \<exists>w. find (\<lambda>e. entry_score ql e = Max (entry_score ql ` set es)) es = Some w \<and>
       scan_questions ql es (bm, bs) = (Some (answer w), entry_score ql w)"
proof (induction es arbitrary: bm bs)
  case Nil
  then show ?case by simp
next
  case (Cons e es)
  let ?f = "entry_score ql"
  have fin: "finite (?f ` set es)" by simp
  show ?case
  proof (cases "bs < ?f e")
    case True
    have step: "scan_questions ql (e # es) (bm, bs) = scan_questions ql es (Some (answer e), ?f e)"
      using True by simp
    show ?thesis
    proof (cases "\<exists>x\<in>set es. ?f e < ?f x")
      case False
      then have le: "\<forall>x\<in>set es. ?f x \<le> ?f e" by auto
      then have "Max (?f ` set (e # es)) = ?f e"
        by (intro Max_eqI) auto
      moreover have "scan_questions ql es (Some (answer e), ?f e) = (Some (answer e), ?f e)"
        using le by (rule scan_questions_keep)
      ultimately show ?thesis using step by simp
    next
      case ex: True
      from Cons.IH [OF ex] obtain w where
        w: "find (\<lambda>x. ?f x = Max (?f ` set es)) es = Some w"
           "scan_questions ql es (Some (answer e), ?f e) = (Some (answer w), ?f w)"
        by blast
      from ex have ne: "set es \<noteq> {}" by auto
      from ex obtain x where x: "x \<in> set es" "?f e < ?f x" by blast
      have "?f x \<le> Max (?f ` set es)" using x fin by simp
      with x(2) have lt: "?f e < Max (?f ` set es)" by (rule less_le_trans)
      then have "Max (?f ` set (e # es)) = Max (?f ` set es)"
        using ne fin by (simp add: max_def)
      then show ?thesis using w step lt by simp
    qed
  next
    case False
    have step: "scan_questions ql (e # es) (bm, bs) = scan_questions ql es (bm, bs)"
      using False by simp
    from Cons.prems False have ex: "\<exists>x\<in>set es. bs < ?f x" by auto
    from Cons.IH [OF ex] obtain w where
      w: "find (\<lambda>x. ?f x = Max (?f ` set es)) es = Some w"
         "scan_questions ql es (bm, bs) = (Some (answer w), ?f w)"
      by blast
    from ex have ne: "set es \<noteq> {}" by auto
    from ex obtain x where x: "x \<in> set es" "bs < ?f x" by blast
    have "?f x \<le> Max (?f ` set es)" using x fin by simp
    with x(2) have "bs < Max (?f ` set es)" by (rule less_le_trans)
    then have lt: "?f e < Max (?f ` set es)" using False by simp
    then have "Max (?f ` set (e # es)) = Max (?f ` set es)"
      using ne fin by (simp add: max_def)
    then show ?thesis using w step lt by simp
  qed
qed

subsection \<open>Construction of the handler\<close>

lemma init_exact:
  "init f (Inr exact_encode) =
     \<lparr>faq_data = load_faq_data f, model = Some exact_encode,
      question_embeddings = Some (map question (get_all_questions (load_faq_data f))),
      questions_list = map question (get_all_questions (load_faq_data f))\<rparr>"
  by (simp add: init_def initialize_embeddings_def exact_encode_def Let_def)

lemma init_no_model:
  "init f (Inl e) =
     \<lparr>faq_data = load_faq_data f, model = None, question_embeddings = None, questions_list = []\<rparr>"
  by (simp add: init_def)

lemma load_NoFile: "load_faq_data NoFile = get_default_faq_data"
  by (simp add: load_faq_data_def load_faq_data_try_def)

lemma default_questions:
  "map question (get_all_questions get_default_faq_data) =
     [''What can this photo assistant do?'', ''How do I upload a photo?'',
      ''What file formats are supported?'', ''What information can you extract from photos?'',
      ''How accurate is the analysis?'', ''Can you read text in images?'',
      ''How do I ask questions about my photos?'', ''What types of questions work best?'',
      ''Can you compare multiple photos?'']"
  by (simp add: get_all_questions_def get_default_faq_data_def)
lemma add_question_returns_True: "fst (add_question w h cat q a) = True"
  by (simp add: add_question_def add_question_try_def save_faq_data_def save_faq_data_try_def Let_def
      split: option.splits)

subsection \<open>The ranked shortlist\<close>














subsection \<open>The values the facade can return\<close>

lemma uncertain_answer_nonempty: "uncertain_answer \<noteq> []"
  by (simp add: uncertain_answer_def)

lemma fallback_answer_question_cases:
  "fallback_answer_question d q = uncertain_answer \<or>
   (\<exists>w\<in>set (get_all_questions d). fallback_answer_question d q = answer w \<and> answer w \<noteq> [])"
proof (cases "\<exists>e\<in>set (get_all_questions d). 0 < entry_score (py_lower q) e")
  case True
  from scan_questions_first_max [OF True, of None] obtain w where
    f: "find (\<lambda>e. entry_score (py_lower q) e =
          Max (entry_score (py_lower q) ` set (get_all_questions d))) (get_all_questions d) = Some w"
    and s: "scan_questions (py_lower q) (get_all_questions d) (None, 0) =
          (Some (answer w), entry_score (py_lower q) w)"
    by blast
  from f have "w \<in> set (get_all_questions d)"
    by (auto simp: find_Some_iff)
  then show ?thesis
    using s by (auto simp: fallback_answer_question_def scan_categories_all)
next
  case False
  then have "\<forall>e\<in>set (get_all_questions d). entry_score (py_lower q) e \<le> 0"
    by (auto simp: not_less)
  then have "scan_questions (py_lower q) (get_all_questions d) (None, 0) = (None, 0)"
    by (rule scan_questions_keep)
  then show ?thesis
    by (simp add: fallback_answer_question_def scan_categories_all)
qed

lemma fallback_answer_question_nonempty: "fallback_answer_question d q \<noteq> []"
  using fallback_answer_question_cases [of d q] uncertain_answer_nonempty by auto

lemma answer_question_cases:
  "answer_question csim h q = fallback_answer_question (faq_data h) q \<or>
   answer_question csim h q = uncertain_answer \<or>
   (\<exists>i<length (get_all_questions (faq_data h)).
      answer_question csim h q = answer (get_all_questions (faq_data h) ! i))"
  by (auto simp: answer_question_def answer_question_try_def Let_def
      split: option.splits sum.splits)


section \<open>Claims\<close>

text \<open>C8: loading the corpus never fails its caller. When the file is missing, or
  testing for it, opening it or parsing it raises, \<open>load_faq_data\<close> gives the built-in
  default corpus, which has three categories, nine entries and \<open>total_questions = 9\<close>.\<close>

theorem load_faq_data_never_fails:
  "load_faq_data f = (case f of Parsed d \<Rightarrow> d | _ \<Rightarrow> get_default_faq_data) \<and>
   load_faq_data NoFile = get_default_faq_data \<and>
   load_faq_data (ExistsRaises e) = get_default_faq_data \<and>
   load_faq_data (ReadRaises e) = get_default_faq_data \<and>
   length (categories get_default_faq_data) = 3 \<and>
   length (get_all_questions get_default_faq_data) = 9 \<and>
   total_questions (metadata get_default_faq_data) = 9"
  by (cases f) (simp_all add: load_faq_data_def load_faq_data_try_def get_all_questions_def
      get_default_faq_data_def)

text \<open>C7: when the embedding provider is unavailable (the model was not constructed, or
  the embedding cache is absent), \<open>get_similar_questions\<close> gives the empty list for every
  query and every \<open>top_k\<close>; the lexical matcher is not consulted.\<close>

theorem get_similar_questions_unavailable:
  assumes "model h = None \<or> question_embeddings h = None"
  shows "get_similar_questions cosine_similarity h q top_k = []"
  using assms
  by (auto simp: get_similar_questions_def get_similar_questions_try_def split: option.splits)

theorem get_similar_questions_unavailable_witness:
  "get_similar_questions exact_cosine (init NoFile (Inl RuntimeError)) ''How do I upload a photo?'' 3 = [] \<and>
   get_similar_questions exact_cosine (init NoFile (Inr (\<lambda>texts. Inl RuntimeError))) ''How do I upload a photo?'' 3 = []"
proof -
  have m: "model (init NoFile (Inl RuntimeError) :: string list handler) = None"
    by (simp add: init_no_model)
  have e: "question_embeddings (init NoFile (Inr (\<lambda>texts. Inl RuntimeError)) :: string list handler) = None"
    by (simp add: init_def initialize_embeddings_def Let_def)
  show ?thesis
    using get_similar_questions_unavailable [of "init NoFile (Inl RuntimeError)" exact_cosine "''How do I upload a photo?''" 3]
      get_similar_questions_unavailable [of "init NoFile (Inr (\<lambda>texts. Inl RuntimeError))" exact_cosine "''How do I upload a photo?''" 3]
      m e by simp
qed

text \<open>C5: on the embedding path (the encoder and the similarity return, and the best
  index is an index of the flattened corpus), the score used is the maximum of the
  similarities, and \<open>answer_question\<close> gives the answer of the entry at the best index
  when that score is at least 0.3 and the fixed message when it is below 0.3.\<close>

theorem answer_question_threshold:
  assumes "model h = Some enc"
    and "question_embeddings h = Some emb"
    and "enc [q] = Inr qe"
    and "cosine_similarity qe emb = Inr sims"
    and "argmax sims = Inr i"
    and "i < length (get_all_questions (faq_data h))"
  shows "sims ! i = Max (set sims) \<and>
         answer_question cosine_similarity h q =
           (if 3 / 10 \<le> sims ! i then answer (get_all_questions (faq_data h) ! i)
            else uncertain_answer)"
  using assms argmax_Max [OF assms(5)]
  by (simp add: answer_question_def answer_question_try_def Let_def not_le)

theorem answer_question_threshold_witness:
  "answer_question exact_cosine (init NoFile (Inr exact_encode)) ''How accurate is the analysis?'' =
     ''The analysis uses state-of-the-art AI models with high accuracy, though results may vary depending on image quality and content complexity.'' \<and>
   answer_question exact_cosine (init NoFile (Inr exact_encode)) ''Where is my invoice?'' =
     uncertain_answer"
proof -
  let ?h = "init NoFile (Inr exact_encode) :: string list handler"
  let ?emb = "map question (get_all_questions get_default_faq_data)"
  have m: "model ?h = Some exact_encode" and e: "question_embeddings ?h = Some ?emb"
    and d: "faq_data ?h = get_default_faq_data"
    by (simp_all add: init_exact load_NoFile)
  have len: "length (get_all_questions get_default_faq_data) = 9"
    by (simp add: get_all_questions_def get_default_faq_data_def)
  have a4: "answer (get_all_questions get_default_faq_data ! 4) =
     ''The analysis uses state-of-the-art AI models with high accuracy, though results may vary depending on image quality and content complexity.''"
    by (simp add: get_all_questions_def get_default_faq_data_def)
  have enc1: "exact_encode [''How accurate is the analysis?''] = Inr [''How accurate is the analysis?'']"
    and enc2: "exact_encode [''Where is my invoice?''] = Inr [''Where is my invoice?'']"
    by (simp_all add: exact_encode_def)
  have c1: "exact_cosine [''How accurate is the analysis?''] ?emb = Inr [0, 0, 0, 0, 1, 0, 0, 0, 0]"
    and c2: "exact_cosine [''Where is my invoice?''] ?emb = Inr [0, 0, 0, 0, 0, 0, 0, 0, 0]"
    by (simp_all add: exact_cosine_def default_questions)
  have am1: "argmax [0, 0, 0, 0, 1, 0, 0, 0, 0 :: rat] = Inr 4"
    and am2: "argmax [0, 0, 0, 0, 0, 0, 0, 0, 0 :: rat] = Inr 0"
    by (simp_all add: argmax_def)
  have "answer_question exact_cosine ?h ''How accurate is the analysis?'' =
     ''The analysis uses state-of-the-art AI models with high accuracy, though results may vary depending on image quality and content complexity.''"
    using answer_question_threshold [where enc = exact_encode and cosine_similarity = exact_cosine, OF m e enc1 c1 am1] a4 by (simp add: d len)
  moreover have "answer_question exact_cosine ?h ''Where is my invoice?'' = uncertain_answer"
    using answer_question_threshold [where enc = exact_encode and cosine_similarity = exact_cosine, OF m e enc2 c2 am2] by (simp add: d len)
  ultimately show ?thesis by simp
qed

text \<open>C2: the claim is that a failure of the save step makes \<open>add_question\<close> return
  \<open>False\<close>. Evaluated at a save that raises \<open>OSError\<close>, the operation returns \<open>True\<close>:
  \<open>save_faq_data\<close> handles the exception itself, so the handler of \<open>add_question\<close> never
  sees it.\<close>

theorem add_question_save_failure_unreported:
  "save_faq_data_try (Some OSError) = Inl OSError \<and>
   fst (add_question (Some OSError) (init NoFile (Inr exact_encode) :: string list handler)
          ''general'' ''Is there a mobile app?'' ''Not yet.'') = True"
  by (simp add: add_question_returns_True save_faq_data_try_def)

text \<open>C3: the claim is that after an append with no re-embedding, a confident match
  returns the answer of the entry that held the matching index when the cache was built.
  Evaluated on the default corpus: before the append the query that equals the fourth
  cached question gets that question's answer; after an entry is appended to the first
  category the same query gets the answer of the appended entry, which now holds index 3
  of the flattened corpus.\<close>

theorem stale_cache_returns_other_entry:
  "answer_question exact_cosine (init NoFile (Inr exact_encode))
      ''What information can you extract from photos?'' =
     ''I can detect objects, recognize text (OCR), identify scenes and concepts, detect faces, and provide detailed descriptions of image content.'' \<and>
   answer_question exact_cosine
      (snd (add_question None (init NoFile (Inr exact_encode)) ''general'' ''Is there a mobile app?'' ''Not yet.''))
      ''What information can you extract from photos?'' = ''Not yet.''"
  by (simp add: init_exact load_NoFile answer_question_def answer_question_try_def
      add_question_def add_question_try_def save_faq_data_def save_faq_data_try_def
      exact_encode_def exact_cosine_def argmax_def get_all_questions_def get_default_faq_data_def Let_def)

text \<open>C10: whatever the provider does, the string \<open>answer_question\<close> returns is the
  fixed message or the answer field of an entry of the corpus the handler holds.\<close>

theorem answer_question_outputs:
  "answer_question csim h q = uncertain_answer \<or>
   answer_question csim h q \<in> answer ` set (get_all_questions (faq_data h))"
  using answer_question_cases [of csim h q] fallback_answer_question_cases [of "faq_data h" q]
  by (auto simp: image_iff)

text \<open>C1, as amended: \<open>answer_question\<close> has a value for every handler, provider and
  query. The lexical matcher never returns the empty string; the facade is the lexical
  matcher when the provider is unavailable and whenever the embedding path raises; and
  when no entry of the corpus has an empty answer the facade never returns the empty
  string.\<close>

theorem answer_question_nonempty:
  "fallback_answer_question d q \<noteq> [] \<and>
   (model h = None \<or> question_embeddings h = None \<longrightarrow>
      answer_question csim h q = fallback_answer_question (faq_data h) q) \<and>
   (answer_question_try csim h q = Inl ex \<longrightarrow>
      answer_question csim h q = fallback_answer_question (faq_data h) q) \<and>
   ((\<forall>e\<in>set (get_all_questions (faq_data h)). answer e \<noteq> []) \<longrightarrow>
      answer_question csim h q \<noteq> [])"
proof -
  have a: "fallback_answer_question d q \<noteq> []"
    by (rule fallback_answer_question_nonempty)
  have b: "model h = None \<or> question_embeddings h = None \<longrightarrow>
      answer_question csim h q = fallback_answer_question (faq_data h) q"
    by (auto simp: answer_question_def answer_question_try_def split: option.splits)
  have c: "answer_question_try csim h q = Inl ex \<longrightarrow>
      answer_question csim h q = fallback_answer_question (faq_data h) q"
    by (simp add: answer_question_def)
  have e: "(\<forall>e\<in>set (get_all_questions (faq_data h)). answer e \<noteq> []) \<longrightarrow>
      answer_question csim h q \<noteq> []"
    using answer_question_cases [of csim h q] fallback_answer_question_nonempty [of "faq_data h" q]
      uncertain_answer_nonempty
    by auto
  from a b c e show ?thesis by blast
qed

theorem answer_question_nonempty_witness:
  "answer_question exact_cosine (init NoFile (Inr exact_encode)) [] \<noteq> [] \<and>
   answer_question exact_cosine (init NoFile (Inl RuntimeError)) ''   '' \<noteq> [] \<and>
   answer_question exact_cosine (init NoFile (Inl RuntimeError)) ''   '' =
     fallback_answer_question get_default_faq_data ''   ''"
proof -
  let ?h = "init NoFile (Inr exact_encode) :: string list handler"
  let ?g = "init NoFile (Inl RuntimeError) :: string list handler"
  have d: "faq_data ?h = get_default_faq_data" "faq_data ?g = get_default_faq_data"
    and m: "model ?g = None"
    by (simp_all add: init_exact init_no_model load_NoFile)
  have ne: "\<forall>e\<in>set (get_all_questions get_default_faq_data). answer e \<noteq> []"
    by (simp add: get_all_questions_def get_default_faq_data_def)
  show ?thesis
    using answer_question_nonempty [where d = get_default_faq_data and q = "[]" and h = ?h and csim = exact_cosine]
      answer_question_nonempty [where d = get_default_faq_data and q = "''   ''" and h = ?g and csim = exact_cosine]
      d m ne
    by simp
qed

text \<open>C1 as stated fails: with the provider available, a query that matches an entry
  whose answer is the empty string gets the empty string.\<close>

theorem answer_question_empty_answer:
  "answer_question exact_cosine
     (init (Parsed \<lparr>categories =
                      [(''general'', \<lparr>name = ''General Questions'',
                          questions = [\<lparr>question = ''Is there a mobile app?'', answer = []\<rparr>]\<rparr>)],
                    metadata = \<lparr>version = ''1.0'', last_updated = ''2024-01-01'',
                                total_questions = 1\<rparr>\<rparr>)
           (Inr exact_encode))
     ''Is there a mobile app?'' = []"
  by (simp add: init_exact load_faq_data_def load_faq_data_try_def answer_question_def
      answer_question_try_def exact_encode_def exact_cosine_def argmax_def get_all_questions_def)





end
